theory Spec2Isabelle
  imports Complex_Main "HOL-Library.AList"
begin

section \<open>Values, exceptions and the external environment\<close>

text \<open>
  The values the program handles are Python scalars: the provider's metadata holds
  \<open>None\<close>, booleans, integers, floats and strings. A float is modelled by the exact
  rational it denotes: IEEE rounding of the arithmetic, overflow, infinities and NaN
  are outside this model.
\<close>

datatype pyval = PNone | PBool bool | PInt int | PFloat rat | PStr string

datatype exn =
    KeyError string
  | IndexError
  | TypeError
  | ValueError
  | ZeroDivisionError
  | ProviderError string

text \<open>
  What the program takes from outside its own source: \<open>locale.currency(v, grouping=True)\<close>
  (\<open>None\<close> when it raises, as it does in the C locale), the \<open>repr\<close> of a float and its
  grouped variant (format specification \<open>,\<close>), and \<open>json.dumps(d, indent=2)\<close>.
\<close>

record env =
  locale_currency :: "rat \<Rightarrow> string option"
  float_repr :: "rat \<Rightarrow> string"
  float_repr_grouped :: "rat \<Rightarrow> string"
  json_dumps :: "(string \<times> pyval) list \<Rightarrow> string"

text \<open>\<open>isinstance(value, (int, float))\<close>: \<open>bool\<close> is a subclass of \<open>int\<close>.\<close>

fun num_of :: "pyval \<Rightarrow> rat option" where
  "num_of PNone = None"
| "num_of (PBool b) = Some (if b then 1 else 0)"
| "num_of (PInt i) = Some (of_int i)"
| "num_of (PFloat q) = Some q"
| "num_of (PStr s) = None"

definition is_number :: "pyval \<Rightarrow> bool" where
  "is_number v = (num_of v \<noteq> None)"

section \<open>Decimal text\<close>

definition digit_chr :: "nat \<Rightarrow> char" where
  "digit_chr d = ''0123456789'' ! (d mod 10)"

fun str_nat :: "nat \<Rightarrow> string" where
  "str_nat n = (if n < 10 then [digit_chr n] else str_nat (n div 10) @ [digit_chr n])"

declare str_nat.simps [simp del]

definition str_int :: "int \<Rightarrow> string" where
  "str_int i = (if i < 0 then ''-'' @ str_nat (nat (- i)) else str_nat (nat i))"

text \<open>Thousands separators: a comma before every group of three digits from the right.\<close>

fun group3 :: "string \<Rightarrow> string" where
  "group3 ds =
     (if length ds \<le> 3 then ds
      else group3 (take (length ds - 3) ds) @ '','' @ drop (length ds - 3) ds)"

declare group3.simps [simp del]

text \<open>
  Fixed-point formatting rounds the exact value to two decimals, ties to the even
  neighbour, which is what Python's \<open>.2f\<close> does with the exact value of a float.
\<close>

definition round_half_even :: "rat \<Rightarrow> int" where
  "round_half_even x =
     (let f = \<lfloor>x\<rfloor>; r = x - of_int f
      in if r < 1 / 2 then f else if 1 / 2 < r then f + 1 else if even f then f else f + 1)"

definition hundredths :: "rat \<Rightarrow> nat" where
  "hundredths q = nat (round_half_even (\<bar>q\<bar> * 100))"

definition frac2 :: "rat \<Rightarrow> string" where
  "frac2 q = [digit_chr (hundredths q div 10), digit_chr (hundredths q)]"

text \<open>\<open>f"{q:.2f}"\<close>\<close>

definition fixed2 :: "rat \<Rightarrow> string" where
  "fixed2 q = (if q < 0 then ''-'' else '''') @ str_nat (hundredths q div 100) @ ''.'' @ frac2 q"

text \<open>\<open>f"{q:,.2f}"\<close>\<close>

definition grouped2 :: "rat \<Rightarrow> string" where
  "grouped2 q =
     (if q < 0 then ''-'' else '''') @ group3 (str_nat (hundredths q div 100)) @ ''.'' @ frac2 q"

text \<open>\<open>f"{q:+.2f}"\<close>\<close>

definition signed2 :: "rat \<Rightarrow> string" where
  "signed2 q = (if q < 0 then ''-'' else ''+'') @ str_nat (hundredths q div 100) @ ''.'' @ frac2 q"

text \<open>\<open>f"{i:,}"\<close> on an integer.\<close>

definition grouped_int :: "int \<Rightarrow> string" where
  "grouped_int i = (if i < 0 then ''-'' else '''') @ group3 (str_nat (nat \<bar>i\<bar>))"

text \<open>\<open>str(value)\<close>\<close>

fun py_str :: "env \<Rightarrow> pyval \<Rightarrow> string" where
  "py_str E PNone = ''None''"
| "py_str E (PBool b) = (if b then ''True'' else ''False'')"
| "py_str E (PInt i) = str_int i"
| "py_str E (PFloat q) = float_repr E q"
| "py_str E (PStr s) = s"

text \<open>\<open>f"{value:,}"\<close>: a string refuses the specification, \<open>None\<close> has no format.\<close>

fun py_format_comma :: "env \<Rightarrow> pyval \<Rightarrow> exn + string" where
  "py_format_comma E PNone = Inl TypeError"
| "py_format_comma E (PBool b) = Inr (grouped_int (if b then 1 else 0))"
| "py_format_comma E (PInt i) = Inr (grouped_int i)"
| "py_format_comma E (PFloat q) = Inr (float_repr_grouped E q)"
| "py_format_comma E (PStr s) = Inl ValueError"

text \<open>\<open>f"{value:.2f}"\<close>\<close>

fun py_format_fixed2 :: "pyval \<Rightarrow> exn + string" where
  "py_format_fixed2 PNone = Inl TypeError"
| "py_format_fixed2 (PStr s) = Inl ValueError"
| "py_format_fixed2 v = (case num_of v of Some q \<Rightarrow> Inr (fixed2 q) | None \<Rightarrow> Inl TypeError)"

section \<open>The formatter\<close>

definition TRILLION :: rat where "TRILLION = 10 ^ 12"
definition BILLION :: rat where "BILLION = 10 ^ 9"
definition MILLION :: rat where "MILLION = 10 ^ 6"
definition THOUSAND :: rat where "THOUSAND = 10 ^ 3"

text \<open>
  \<open>format_large_number\<close>: comparing a string or \<open>None\<close> with a float raises \<open>TypeError\<close>.
\<close>

definition format_large_number :: "pyval \<Rightarrow> exn + string" where
  "format_large_number value =
     (case num_of value of
        None \<Rightarrow> Inl TypeError
      | Some v \<Rightarrow>
          if v \<ge> TRILLION then Inr (''$'' @ fixed2 (v / TRILLION) @ ''T'')
          else if v \<ge> BILLION then Inr (''$'' @ fixed2 (v / BILLION) @ ''B'')
          else if v \<ge> MILLION then Inr (''$'' @ fixed2 (v / MILLION) @ ''M'')
          else if v \<ge> THOUSAND then Inr (''$'' @ fixed2 (v / THOUSAND) @ ''K'')
          else Inr (''$'' @ grouped2 v))"

text \<open>\<open>f"{value:+.2f}"\<close> and \<open>f"{value:,.2f}"\<close> on an arbitrary value.\<close>

fun py_format_signed2 :: "pyval \<Rightarrow> exn + string" where
  "py_format_signed2 PNone = Inl TypeError"
| "py_format_signed2 (PStr s) = Inl ValueError"
| "py_format_signed2 v = (case num_of v of Some q \<Rightarrow> Inr (signed2 q) | None \<Rightarrow> Inl TypeError)"

fun py_format_grouped2 :: "pyval \<Rightarrow> exn + string" where
  "py_format_grouped2 PNone = Inl TypeError"
| "py_format_grouped2 (PStr s) = Inl ValueError"
| "py_format_grouped2 v = (case num_of v of Some q \<Rightarrow> Inr (grouped2 q) | None \<Rightarrow> Inl TypeError)"

text \<open>\<open>value * 100\<close>: a string is repeated, \<open>None\<close> has no product.\<close>

fun py_times_100 :: "pyval \<Rightarrow> exn + pyval" where
  "py_times_100 PNone = Inl TypeError"
| "py_times_100 (PBool b) = Inr (PInt (if b then 100 else 0))"
| "py_times_100 (PInt i) = Inr (PInt (i * 100))"
| "py_times_100 (PFloat q) = Inr (PFloat (q * 100))"
| "py_times_100 (PStr s) = Inr (PStr (concat (replicate 100 s)))"

text \<open>\<open>value >= 0\<close>\<close>

definition py_ge_0 :: "pyval \<Rightarrow> exn + bool" where
  "py_ge_0 value = (case num_of value of None \<Rightarrow> Inl TypeError | Some q \<Rightarrow> Inr (q \<ge> 0))"

text \<open>Sequencing of fallible expressions: the first exception ends the evaluation.\<close>

definition bind :: "exn + 'a \<Rightarrow> ('a \<Rightarrow> exn + 'b) \<Rightarrow> exn + 'b" where
  "bind r f = (case r of Inl e \<Rightarrow> Inl e | Inr v \<Rightarrow> f v)"

text \<open>
  \<open>format_currency\<close>: the locale's formatting first; when it raises (the bare \<open>except\<close>),
  \<open>f"${value:,.2f}"\<close>, whose own exception propagates.
\<close>

definition format_currency :: "env \<Rightarrow> pyval \<Rightarrow> exn + string" where
  "format_currency E value =
     (case num_of value of
        None \<Rightarrow> bind (py_format_grouped2 value) (\<lambda>s. Inr (''$'' @ s))
      | Some q \<Rightarrow>
          (case locale_currency E q of
             Some s \<Rightarrow> Inr s
           | None \<Rightarrow> Inr (''$'' @ grouped2 q)))"

definition format_percentage :: "pyval \<Rightarrow> exn + string" where
  "format_percentage value = bind (py_format_signed2 value) (\<lambda>s. Inr (s @ ''%''))"

definition percent_fields :: "string list" where
  "percent_fields =
     [''dividendYield'', ''payoutRatio'', ''profitMargins'', ''operatingMargins'',
      ''ebitdaMargins'', ''grossMargins'', ''returnOnAssets'', ''returnOnEquity'',
      ''returnOnCapital'', ''revenueGrowth'', ''earningsGrowth'', ''earningsQuarterlyGrowth'',
      ''fiftyTwoWeekChangePercent'', ''shortPercentOfFloat'']"

definition large_number_fields :: "string list" where
  "large_number_fields =
     [''marketCap'', ''enterpriseValue'', ''revenue'', ''grossProfits'',
      ''freeCashflow'', ''operatingCashflow'', ''targetMeanPrice'',
      ''targetMedianPrice'', ''targetHighPrice'', ''targetLowPrice'',
      ''fiftyDayAverage'', ''twoHundredDayAverage'', ''fiftyTwoWeekLow'',
      ''fiftyTwoWeekHigh'', ''fiftyTwoWeekChange'', ''bookValue'',
      ''dividendRate'', ''lastDividendValue'']"

definition ratio_fields :: "string list" where
  "ratio_fields =
     [''trailingPE'', ''forwardPE'', ''pegRatio'', ''priceToBook'',
      ''enterpriseToRevenue'', ''enterpriseToEbitda'', ''priceToSalesTrailing12Months'',
      ''shortRatio'', ''recommendationMean'']"

definition count_fields :: "string list" where
  "count_fields =
     [''volume'', ''averageVolume'', ''averageVolume10days'', ''bidSize'', ''askSize'',
      ''floatShares'', ''sharesOutstanding'', ''sharesShort'', ''sharesShortPriorMonth'',
      ''numberOfAnalystOpinions'', ''fullTimeEmployees'']"

definition format_field_value :: "env \<Rightarrow> string \<Rightarrow> pyval \<Rightarrow> exn + string" where
  "format_field_value E field_key value =
     (if value = PNone then Inr ''N/A''
      else if field_key \<in> set percent_fields then
        (if is_number value
         then bind (py_times_100 value) (\<lambda>p. bind (py_format_fixed2 p) (\<lambda>s. Inr (s @ ''%'')))
         else Inr (py_str E value))
      else if field_key \<in> set large_number_fields then
        (if is_number value then format_large_number value else Inr (py_str E value))
      else if field_key \<in> set ratio_fields then
        (if is_number value then py_format_fixed2 value else Inr (py_str E value))
      else if field_key \<in> set count_fields then
        (if is_number value then py_format_comma E value else Inr (py_str E value))
      else Inr (py_str E value))"

section \<open>Dictionaries and the field catalog\<close>

text \<open>
  A Python dictionary keeps its keys in insertion order: an association list with
  distinct keys, where storing under an existing key keeps the key's position.
\<close>

type_synonym pydict = "(string \<times> pyval) list"

text \<open>\<open>d[k]\<close>, \<open>d.get(k)\<close>, \<open>k in d\<close>, \<open>d[k] = v\<close>\<close>

definition dict_getitem :: "pydict \<Rightarrow> string \<Rightarrow> exn + pyval" where
  "dict_getitem d k = (case map_of d k of None \<Rightarrow> Inl (KeyError k) | Some v \<Rightarrow> Inr v)"

definition dict_get :: "pydict \<Rightarrow> string \<Rightarrow> pyval" where
  "dict_get d k = (case map_of d k of None \<Rightarrow> PNone | Some v \<Rightarrow> v)"

definition dict_contains :: "('k \<times> 'v) list \<Rightarrow> 'k \<Rightarrow> bool" where
  "dict_contains d k = (map_of d k \<noteq> None)"

definition dict_setitem :: "('k \<times> 'v) list \<Rightarrow> 'k \<Rightarrow> 'v \<Rightarrow> ('k \<times> 'v) list" where
  "dict_setitem d k v = AList.update k v d"

text \<open>\<open>d.update(other)\<close>\<close>

definition dict_update :: "('k \<times> 'v) list \<Rightarrow> ('k \<times> 'v) list \<Rightarrow> ('k \<times> 'v) list" where
  "dict_update d other = fold (\<lambda>(k, v) acc. dict_setitem acc k v) other d"

definition field_categories :: "(string \<times> (string \<times> string) list) list" where
  "field_categories =
    [(''Basic Info'',
       [(''longName'', ''Company Name''),
        (''shortName'', ''Short Name''),
        (''symbol'', ''Symbol''),
        (''exchange'', ''Exchange''),
        (''quoteType'', ''Quote Type''),
        (''market'', ''Market''),
        (''marketState'', ''Market State''),
        (''currency'', ''Currency''),
        (''timeZoneFullName'', ''Time Zone'')]),
     (''Price & Volume'',
       [(''currentPrice'', ''Current Price''),
        (''previousClose'', ''Previous Close''),
        (''open'', ''Open''),
        (''dayLow'', ''Day Low''),
        (''dayHigh'', ''Day High''),
        (''volume'', ''Volume''),
        (''averageVolume'', ''Avg Volume''),
        (''averageVolume10days'', ''Avg Volume (10d)''),
        (''bid'', ''Bid''),
        (''ask'', ''Ask''),
        (''bidSize'', ''Bid Size''),
        (''askSize'', ''Ask Size'')]),
     (''Market Metrics'',
       [(''marketCap'', ''Market Cap''),
        (''enterpriseValue'', ''Enterprise Value''),
        (''floatShares'', ''Float Shares''),
        (''sharesOutstanding'', ''Shares Outstanding''),
        (''sharesShort'', ''Shares Short''),
        (''sharesShortPreviousMonthDate'', ''Short Month Date''),
        (''sharesShortPriorMonth'', ''Short Prior Month''),
        (''shortRatio'', ''Short Ratio''),
        (''shortPercentOfFloat'', ''Short % of Float'')]),
     (''Valuation Ratios'',
       [(''trailingPE'', ''P/E Ratio (TTM)''),
        (''forwardPE'', ''Forward P/E''),
        (''pegRatio'', ''PEG Ratio''),
        (''priceToBook'', ''Price/Book''),
        (''enterpriseToRevenue'', ''Enterprise/Revenue''),
        (''enterpriseToEbitda'', ''Enterprise/EBITDA''),
        (''bookValue'', ''Book Value''),
        (''priceToSalesTrailing12Months'', ''Price/Sales'')]),
     (''Financial Metrics'',
       [(''revenue'', ''Revenue''),
        (''revenuePerShare'', ''Revenue/Share''),
        (''revenueGrowth'', ''Revenue Growth''),
        (''grossProfits'', ''Gross Profits''),
        (''freeCashflow'', ''Free Cash Flow''),
        (''operatingCashflow'', ''Operating Cash Flow''),
        (''earningsGrowth'', ''Earnings Growth''),
        (''earningsQuarterlyGrowth'', ''Quarterly Earnings Growth''),
        (''returnOnAssets'', ''ROA''),
        (''returnOnEquity'', ''ROE''),
        (''returnOnCapital'', ''ROIC''),
        (''profitMargins'', ''Profit Margin''),
        (''operatingMargins'', ''Operating Margin''),
        (''ebitdaMargins'', ''EBITDA Margin''),
        (''grossMargins'', ''Gross Margin'')]),
     (''Dividend Info'',
       [(''dividendRate'', ''Dividend Rate''),
        (''dividendYield'', ''Dividend Yield''),
        (''payoutRatio'', ''Payout Ratio''),
        (''fiveYearAvgDividendYield'', ''5Y Avg Dividend Yield''),
        (''exDividendDate'', ''Ex-Dividend Date''),
        (''lastDividendDate'', ''Last Dividend Date''),
        (''lastDividendValue'', ''Last Dividend Value'')]),
     (''Analyst Info'',
       [(''targetMeanPrice'', ''Target Mean Price''),
        (''targetMedianPrice'', ''Target Median Price''),
        (''targetHighPrice'', ''Target High Price''),
        (''targetLowPrice'', ''Target Low Price''),
        (''numberOfAnalystOpinions'', ''Analyst Opinions''),
        (''recommendationMean'', ''Recommendation''),
        (''recommendationKey'', ''Recommendation Key'')]),
     (''Technical Indicators'',
       [(''fiftyDayAverage'', ''50-Day Average''),
        (''twoHundredDayAverage'', ''200-Day Average''),
        (''fiftyTwoWeekLow'', ''52-Week Low''),
        (''fiftyTwoWeekHigh'', ''52-Week High''),
        (''fiftyTwoWeekChange'', ''52-Week Change''),
        (''fiftyTwoWeekChangePercent'', ''52-Week Change %'')]),
     (''Company Info'',
       [(''industry'', ''Industry''),
        (''sector'', ''Sector''),
        (''country'', ''Country''),
        (''state'', ''State''),
        (''city'', ''City''),
        (''zip'', ''ZIP''),
        (''phone'', ''Phone''),
        (''website'', ''Website''),
        (''businessSummary'', ''Business Summary''),
        (''fullTimeEmployees'', ''Full-Time Employees'')])]"

text \<open>The flat mapping built in \<open>__init__\<close>: every category's fields, in turn, \<open>update\<close>d in.\<close>

definition all_fields :: "(string \<times> string) list" where
  "all_fields = fold (\<lambda>(category, flds) acc. dict_update acc flds) field_categories []"

section \<open>The presenter\<close>

text \<open>
  Standard output is the list of the strings handed to \<open>print\<close>, oldest first. A
  presenter function yields what it printed and the exception that ended it, if any.
\<close>

type_synonym printed = "string list \<times> exn option"

definition emit :: "string \<Rightarrow> printed" where
  "emit s = ([s], None)"

definition nothing :: printed where
  "nothing = ([], None)"

definition seq :: "printed \<Rightarrow> printed \<Rightarrow> printed" where
  "seq a b = (case snd a of Some e \<Rightarrow> a | None \<Rightarrow> (fst a @ fst b, snd b))"

definition bind_val :: "exn + 'a \<Rightarrow> ('a \<Rightarrow> printed) \<Rightarrow> printed" where
  "bind_val r f = (case r of Inl e \<Rightarrow> ([], Some e) | Inr v \<Rightarrow> f v)"

definition NL :: string where
  "NL = [CHR 0x0A]"

record colors =
  c_green :: string
  c_red :: string
  c_yellow :: string
  c_blue :: string
  c_bold :: string
  c_reset :: string

definition ESC :: string where
  "ESC = [CHR 0x1B]"

definition init_colors :: colors where
  "init_colors =
     \<lparr>c_green = ESC @ ''[92m'', c_red = ESC @ ''[91m'', c_yellow = ESC @ ''[93m'',
      c_blue = ESC @ ''[94m'', c_bold = ESC @ ''[1m'', c_reset = ESC @ ''[0m''\<rparr>"

text \<open>\<open>--no-colors\<close>: every code becomes the empty string.\<close>

definition no_colors :: "colors \<Rightarrow> colors" where
  "no_colors cs =
     \<lparr>c_green = [], c_red = [], c_yellow = [], c_blue = [], c_bold = [], c_reset = []\<rparr>"

definition colors_lookup :: "colors \<Rightarrow> string \<Rightarrow> string option" where
  "colors_lookup cs color =
     map_of [(''green'', c_green cs), (''red'', c_red cs), (''yellow'', c_yellow cs),
             (''blue'', c_blue cs), (''bold'', c_bold cs), (''reset'', c_reset cs)] color"

definition colorize :: "colors \<Rightarrow> string \<Rightarrow> string \<Rightarrow> string" where
  "colorize cs text color =
     (case colors_lookup cs color of
        Some code \<Rightarrow> code @ text @ c_reset cs
      | None \<Rightarrow> text)"

definition rule60 :: string where
  "rule60 = replicate 60 (CHR ''='')"

text \<open>The two markers are the UTF-8 bytes of U+25B2 and U+25BC.\<close>

definition up_marker :: string where
  "up_marker = [CHR 0xE2, CHR 0x96, CHR 0xB2]"

definition down_marker :: string where
  "down_marker = [CHR 0xE2, CHR 0x96, CHR 0xBC]"

text \<open>\<open>display_stock_info\<close>, header and price lines (always printed).\<close>

definition display_header :: "env \<Rightarrow> colors \<Rightarrow> pydict \<Rightarrow> printed" where
  "display_header E cs data =
     seq (emit (NL @ colorize cs rule60 ''bold''))
    (bind_val (dict_getitem data ''name'') (\<lambda>name.
     bind_val (dict_getitem data ''symbol'') (\<lambda>symbol.
     seq (emit (colorize cs (py_str E name @ '' ('' @ py_str E symbol @ '')'') ''bold''))
    (seq (emit (colorize cs rule60 ''bold''))
    (bind_val (dict_getitem data ''change'') (\<lambda>change.
     bind_val (py_ge_0 change) (\<lambda>up.
     let price_color = (if up then ''green'' else ''red'');
         change_symbol = (if up then up_marker else down_marker)
     in
     bind_val (dict_getitem data ''current_price'') (\<lambda>current_price.
     bind_val (format_currency E current_price) (\<lambda>price_text.
     seq (emit (NL @ colorize cs ''Current Price:'' ''bold'' @ '' ''
                @ colorize cs price_text price_color))
    (bind_val (format_currency E change) (\<lambda>change_amount.
     bind_val (dict_getitem data ''change_percent'') (\<lambda>change_percent.
     bind_val (format_percentage change_percent) (\<lambda>percent_text.
     let change_text = change_symbol @ '' '' @ change_amount @ '' ('' @ percent_text @ '')''
     in
     seq (emit (colorize cs ''Change:'' ''bold'' @ '' '' @ colorize cs change_text price_color))
    (bind_val (dict_getitem data ''previous_close'') (\<lambda>previous_close.
     bind_val (format_currency E previous_close) (\<lambda>close_text.
     emit (colorize cs ''Previous Close:'' ''bold'' @ '' '' @ close_text)))))))))))))))))"

text \<open>The trading block of \<open>-d\<close>.\<close>

definition display_trading_info :: "env \<Rightarrow> colors \<Rightarrow> pydict \<Rightarrow> printed" where
  "display_trading_info E cs data =
     seq (emit (NL @ colorize cs ''Trading Info:'' ''bold''))
    (bind_val (dict_getitem data ''high'') (\<lambda>high.
     bind_val (format_currency E high) (\<lambda>high_text.
     seq (emit (''  High: '' @ high_text))
    (bind_val (dict_getitem data ''low'') (\<lambda>low.
     bind_val (format_currency E low) (\<lambda>low_text.
     seq (emit (''  Low: '' @ low_text))
    (bind_val (dict_getitem data ''volume'') (\<lambda>volume.
     bind_val (py_format_comma E volume) (\<lambda>volume_text.
     emit (''  Volume: '' @ volume_text))))))))))"

text \<open>\<open>_display_detailed_info\<close>: the three legacy fields, formatted without a type check.\<close>

definition display_detailed_info :: "env \<Rightarrow> colors \<Rightarrow> pydict \<Rightarrow> printed" where
  "display_detailed_info E cs data =
     seq (emit (NL @ colorize cs ''Additional Info:'' ''bold''))
    (seq (case map_of data ''marketCap'' of
            None \<Rightarrow> nothing
          | Some v \<Rightarrow> bind_val (format_large_number v) (\<lambda>s. emit (''  Market Cap: '' @ s)))
    (seq (case map_of data ''trailingPE'' of
            None \<Rightarrow> nothing
          | Some v \<Rightarrow> bind_val (py_format_fixed2 v) (\<lambda>s. emit (''  P/E Ratio: '' @ s)))
         (case map_of data ''dividendYield'' of
            None \<Rightarrow> nothing
          | Some v \<Rightarrow>
              bind_val (py_times_100 v) (\<lambda>p.
              bind_val (py_format_fixed2 p) (\<lambda>s. emit (''  Dividend Yield: '' @ s @ ''%''))))))"

text \<open>\<open>_display_specific_fields\<close>: the loop over the requested keys.\<close>

fun specific_fields_loop :: "env \<Rightarrow> pydict \<Rightarrow> string list \<Rightarrow> printed" where
  "specific_fields_loop E data [] = nothing"
| "specific_fields_loop E data (field # flds) =
     seq (case map_of all_fields field of
            Some display_name \<Rightarrow>
              bind_val (format_field_value E field (dict_get data field)) (\<lambda>formatted_value.
              emit (''  '' @ display_name @ '': '' @ formatted_value))
          | None \<Rightarrow> emit (''  '' @ field @ '': Field not available''))
         (specific_fields_loop E data flds)"

definition display_specific_fields :: "env \<Rightarrow> colors \<Rightarrow> pydict \<Rightarrow> string list \<Rightarrow> printed" where
  "display_specific_fields E cs data flds =
     seq (emit (NL @ colorize cs ''Requested Fields:'' ''bold'')) (specific_fields_loop E data flds)"

text \<open>
  \<open>_display_all_fields\<close>: the inner loop collects \<open>category_data\<close>, the pairs of label and
  formatted value of the fields the record has with a value other than \<open>None\<close>.
\<close>

fun category_data_loop ::
  "env \<Rightarrow> pydict \<Rightarrow> (string \<times> string) list \<Rightarrow> (string \<times> string) list
     \<Rightarrow> exn + (string \<times> string) list" where
  "category_data_loop E data [] category_data = Inr category_data"
| "category_data_loop E data ((field_key, display_name) # flds) category_data =
     (case map_of data field_key of
        None \<Rightarrow> category_data_loop E data flds category_data
      | Some value \<Rightarrow>
          if value \<noteq> PNone then
            bind (format_field_value E field_key value) (\<lambda>formatted_value.
            category_data_loop E data flds (category_data @ [(display_name, formatted_value)]))
          else category_data_loop E data flds category_data)"

fun print_category_data :: "(string \<times> string) list \<Rightarrow> printed" where
  "print_category_data [] = nothing"
| "print_category_data ((display_name, formatted_value) # rest) =
     seq (emit (''  '' @ display_name @ '': '' @ formatted_value)) (print_category_data rest)"

fun all_fields_loop ::
  "env \<Rightarrow> colors \<Rightarrow> pydict \<Rightarrow> (string \<times> (string \<times> string) list) list \<Rightarrow> printed" where
  "all_fields_loop E cs data [] = nothing"
| "all_fields_loop E cs data ((category, flds) # categories) =
     seq (bind_val (category_data_loop E data flds []) (\<lambda>category_data.
            if category_data \<noteq> [] then
              seq (emit (NL @ colorize cs (category @ '':'') ''bold''))
                  (print_category_data category_data)
            else nothing))
         (all_fields_loop E cs data categories)"

definition display_all_fields :: "env \<Rightarrow> colors \<Rightarrow> pydict \<Rightarrow> printed" where
  "display_all_fields E cs data = all_fields_loop E cs data field_categories"

text \<open>The footer of \<open>display_stock_info\<close>.\<close>

definition display_footer :: "env \<Rightarrow> colors \<Rightarrow> pydict \<Rightarrow> printed" where
  "display_footer E cs data =
     bind_val (dict_getitem data ''timestamp'') (\<lambda>timestamp.
     seq (emit (NL @ colorize cs ''Last Updated:'' ''bold'' @ '' '' @ py_str E timestamp))
         (emit (colorize cs rule60 ''bold'' @ NL)))"

text \<open>
  \<open>display_stock_info\<close>. \<open>specific_fields\<close> is \<open>None\<close> or the list given to \<open>--fields\<close>;
  an empty list is false, as \<open>None\<close> is.
\<close>

definition truthy_fields :: "string list option \<Rightarrow> bool" where
  "truthy_fields specific_fields = (case specific_fields of None \<Rightarrow> False | Some fs \<Rightarrow> fs \<noteq> [])"

definition display_stock_info ::
  "env \<Rightarrow> colors \<Rightarrow> pydict \<Rightarrow> bool \<Rightarrow> string list option \<Rightarrow> bool \<Rightarrow> printed" where
  "display_stock_info E cs data detailed specific_fields show_all =
     (if data = [] then emit ''No data available for this symbol.''
      else
        seq (display_header E cs data)
       (seq (if detailed then display_trading_info E cs data else nothing)
       (seq (if detailed \<or> truthy_fields specific_fields \<or> show_all then
               (if show_all then display_all_fields E cs data
                else if truthy_fields specific_fields then
                  display_specific_fields E cs data (case specific_fields of Some fs \<Rightarrow> fs | None \<Rightarrow> [])
                else display_detailed_info E cs data)
             else nothing)
            (display_footer E cs data))))"

section \<open>The data fetcher\<close>

text \<open>
  The provider's historical frame: the index (one date per row) and the named columns.
  Cells are numbers. In a frame every column has one cell per row (\<open>wf_frame\<close>).
\<close>

datatype date = Date nat nat nat

record frame =
  frame_index :: "date list"
  frame_columns :: "(string \<times> rat list) list"

definition wf_frame :: "frame \<Rightarrow> bool" where
  "wf_frame hist = list_all (\<lambda>c. length (snd c) = length (frame_index hist)) (frame_columns hist)"

text \<open>\<open>hist.empty\<close>: an axis of length 0.\<close>

definition frame_empty :: "frame \<Rightarrow> bool" where
  "frame_empty hist = (frame_index hist = [] \<or> frame_columns hist = [])"

text \<open>\<open>len(hist)\<close>, \<open>name in hist.columns\<close>, \<open>hist[name]\<close>\<close>

definition frame_len :: "frame \<Rightarrow> nat" where
  "frame_len hist = length (frame_index hist)"

definition frame_has :: "frame \<Rightarrow> string \<Rightarrow> bool" where
  "frame_has hist name = dict_contains (frame_columns hist) name"

definition frame_getitem :: "frame \<Rightarrow> string \<Rightarrow> exn + rat list" where
  "frame_getitem hist name =
     (case map_of (frame_columns hist) name of
        None \<Rightarrow> Inl (KeyError name)
      | Some column \<Rightarrow> Inr column)"

text \<open>\<open>column.iloc[i]\<close>: a negative position counts from the end.\<close>

definition iloc :: "rat list \<Rightarrow> int \<Rightarrow> exn + rat" where
  "iloc column i =
     (let n = int (length column); j = (if i < 0 then n + i else i)
      in if 0 \<le> j \<and> j < n then Inr (column ! nat j) else Inl IndexError)"

text \<open>\<open>a / b\<close>\<close>

definition py_div :: "rat \<Rightarrow> rat \<Rightarrow> exn + rat" where
  "py_div a b = (if b = 0 then Inl ZeroDivisionError else Inr (a / b))"

text \<open>
  The provider (\<open>yf.Ticker(symbol)\<close>): its metadata and its history for a period. Either
  call may raise; \<open>Inl\<close> carries the exception's message.
\<close>

record provider =
  ticker_info :: "string \<Rightarrow> string + pydict"
  ticker_history :: "string \<Rightarrow> string \<Rightarrow> string + frame"

definition provider_call :: "string + 'a \<Rightarrow> exn + 'a" where
  "provider_call r = (case r of Inl msg \<Rightarrow> Inl (ProviderError msg) | Inr v \<Rightarrow> Inr v)"

text \<open>
  \<open>str(e)\<close> for the exceptions that arise inside the fetchers; \<open>TypeError\<close> and
  \<open>ValueError\<close> do not arise there.
\<close>

fun exn_str :: "exn \<Rightarrow> string" where
  "exn_str (KeyError k) = [CHR 0x27] @ k @ [CHR 0x27]"
| "exn_str IndexError = ''single positional indexer is out-of-bounds''"
| "exn_str ZeroDivisionError = ''float division by zero''"
| "exn_str (ProviderError msg) = msg"
| "exn_str TypeError = []"
| "exn_str ValueError = []"

text \<open>\<open>symbol.upper().strip()\<close>, on ASCII text.\<close>

definition upper_chr :: "char \<Rightarrow> char" where
  "upper_chr c =
     (case map_of (zip ''abcdefghijklmnopqrstuvwxyz'' ''ABCDEFGHIJKLMNOPQRSTUVWXYZ'') c of
        Some u \<Rightarrow> u
      | None \<Rightarrow> c)"

definition py_upper :: "string \<Rightarrow> string" where
  "py_upper s = map upper_chr s"

definition is_space :: "char \<Rightarrow> bool" where
  "is_space c =
     (c \<in> set [CHR 0x09, CHR 0x0A, CHR 0x0B, CHR 0x0C, CHR 0x0D,
                CHR 0x1C, CHR 0x1D, CHR 0x1E, CHR 0x1F, CHR 0x20])"

definition py_strip :: "string \<Rightarrow> string" where
  "py_strip s = rev (dropWhile is_space (rev (dropWhile is_space s)))"

text \<open>
  The loop that adds the catalog's fields: every key of \<open>all_fields\<close> that the metadata
  has with a value other than \<open>None\<close> is stored into the record.
\<close>

fun merge_info :: "pydict \<Rightarrow> string list \<Rightarrow> pydict \<Rightarrow> pydict" where
  "merge_info info [] data = data"
| "merge_info info (field_key # keys) data =
     (case map_of info field_key of
        None \<Rightarrow> merge_info info keys data
      | Some value \<Rightarrow>
          if value \<noteq> PNone then merge_info info keys (dict_setitem data field_key value)
          else merge_info info keys data)"

text \<open>
  The values \<open>get_stock_data\<close> computes from a non-empty frame, in the order of the
  source: \<open>current_price\<close>, \<open>previous_close\<close>, \<open>change\<close>, \<open>change_percent\<close>, then
  \<open>volume\<close>, \<open>high\<close> and \<open>low\<close> with their defaults.
\<close>

record snapshot =
  s_current_price :: rat
  s_previous_close :: rat
  s_change :: rat
  s_change_percent :: pyval
  s_volume :: pyval
  s_high :: rat
  s_low :: rat

definition snapshot_values :: "frame \<Rightarrow> exn + snapshot" where
  "snapshot_values hist =
     bind (frame_getitem hist ''Close'') (\<lambda>close.
     bind (iloc close (- 1)) (\<lambda>current_price.
     bind (if frame_len hist > 1
           then bind (frame_getitem hist ''Close'') (\<lambda>close'. iloc close' (- 2))
           else Inr current_price) (\<lambda>previous_close.
     let change = current_price - previous_close in
     bind (if previous_close \<noteq> 0
           then bind (py_div change previous_close) (\<lambda>q. Inr (PFloat (q * 100)))
           else Inr (PInt 0)) (\<lambda>change_percent.
     bind (if frame_has hist ''Volume''
           then bind (frame_getitem hist ''Volume'') (\<lambda>c. bind (iloc c (- 1)) (\<lambda>v. Inr (PFloat v)))
           else Inr (PInt 0)) (\<lambda>volume.
     bind (if frame_has hist ''High''
           then bind (frame_getitem hist ''High'') (\<lambda>c. iloc c (- 1))
           else Inr current_price) (\<lambda>high.
     bind (if frame_has hist ''Low''
           then bind (frame_getitem hist ''Low'') (\<lambda>c. iloc c (- 1))
           else Inr current_price) (\<lambda>low.
     Inr \<lparr>s_current_price = current_price, s_previous_close = previous_close,
          s_change = change, s_change_percent = change_percent, s_volume = volume,
          s_high = high, s_low = low\<rparr>)))))))"

text \<open>The base data structure; \<open>now\<close> is the formatted clock reading.\<close>

definition base_data :: "string \<Rightarrow> pydict \<Rightarrow> snapshot \<Rightarrow> string \<Rightarrow> pydict" where
  "base_data symbol info sv now =
     [(''symbol'', PStr symbol),
      (''name'',
         (case map_of info ''longName'' of
            Some v \<Rightarrow> v
          | None \<Rightarrow> (case map_of info ''shortName'' of Some v \<Rightarrow> v | None \<Rightarrow> PStr symbol))),
      (''current_price'', PFloat (s_current_price sv)),
      (''previous_close'', PFloat (s_previous_close sv)),
      (''change'', PFloat (s_change sv)),
      (''change_percent'', s_change_percent sv),
      (''volume'', s_volume sv),
      (''high'', PFloat (s_high sv)),
      (''low'', PFloat (s_low sv)),
      (''timestamp'', PStr now)]"

text \<open>The body of the \<open>try\<close> of \<open>get_stock_data\<close>, for the normalised symbol.\<close>

definition get_stock_data_try :: "provider \<Rightarrow> string \<Rightarrow> string \<Rightarrow> exn + pydict option" where
  "get_stock_data_try P now symbol =
     bind (provider_call (ticker_info P symbol)) (\<lambda>info.
     bind (provider_call (ticker_history P symbol ''2d'')) (\<lambda>hist.
     if frame_empty hist then Inr None
     else
       bind (snapshot_values hist) (\<lambda>sv.
       Inr (Some (merge_info info (map fst all_fields) (base_data symbol info sv now))))))"

text \<open>
  \<open>get_stock_data\<close>: the record or \<open>None\<close>, and the lines written to the error stream.
\<close>

definition get_stock_data :: "provider \<Rightarrow> string \<Rightarrow> string \<Rightarrow> pydict option \<times> string list" where
  "get_stock_data P now symbol =
     (let symbol' = py_strip (py_upper symbol) in
      case get_stock_data_try P now symbol' of
        Inr result \<Rightarrow> (result, [])
      | Inl e \<Rightarrow> (None, [''Error fetching data for '' @ symbol' @ '': '' @ exn_str e]))"

text \<open>\<open>d.strftime('%d/%m/%Y')\<close>\<close>

definition pad_zero :: "nat \<Rightarrow> string \<Rightarrow> string" where
  "pad_zero w s = replicate (w - length s) (CHR ''0'') @ s"

fun strftime_dmy :: "date \<Rightarrow> string" where
  "strftime_dmy (Date y m d) =
     pad_zero 2 (str_nat d) @ ''/'' @ pad_zero 2 (str_nat m) @ ''/'' @ pad_zero 4 (str_nat y)"

record historical =
  h_symbol :: string
  h_dates :: "string list"
  h_prices :: "rat list"
  h_volumes :: "rat list"
  h_highs :: "rat list"
  h_lows :: "rat list"
  h_opens :: "rat list"

definition get_historical_data_try :: "provider \<Rightarrow> string \<Rightarrow> string \<Rightarrow> exn + historical option" where
  "get_historical_data_try P symbol period =
     bind (provider_call (ticker_history P symbol period)) (\<lambda>hist.
     if frame_empty hist then Inr None
     else
       let dates = map strftime_dmy (frame_index hist) in
       bind (frame_getitem hist ''Close'') (\<lambda>prices.
       bind (if frame_has hist ''Volume'' then frame_getitem hist ''Volume'' else Inr []) (\<lambda>volumes.
       bind (if frame_has hist ''High'' then frame_getitem hist ''High'' else Inr []) (\<lambda>highs.
       bind (if frame_has hist ''Low'' then frame_getitem hist ''Low'' else Inr []) (\<lambda>lows.
       bind (if frame_has hist ''Open'' then frame_getitem hist ''Open'' else Inr []) (\<lambda>opens.
       Inr (Some \<lparr>h_symbol = symbol, h_dates = dates, h_prices = prices, h_volumes = volumes,
                  h_highs = highs, h_lows = lows, h_opens = opens\<rparr>)))))))"

definition get_historical_data ::
  "provider \<Rightarrow> string \<Rightarrow> string \<Rightarrow> historical option \<times> string list" where
  "get_historical_data P symbol period =
     (let symbol' = py_strip (py_upper symbol) in
      case get_historical_data_try P symbol' period of
        Inr result \<Rightarrow> (result, [])
      | Inl e \<Rightarrow> (None, [''Error fetching historical data for '' @ symbol' @ '': '' @ exn_str e]))"

section \<open>The driver: fetching and output\<close>

text \<open>
  Dictionaries are objects: a store maps an address to the dictionary that lives there,
  and \<open>fresh\<close> is the next unused address. \<open>d.copy()\<close> makes a new object; \<open>del d[k]\<close>
  changes the object at \<open>d\<close>.
\<close>

record store =
  objs :: "nat \<Rightarrow> pydict"
  fresh :: nat

definition store_alloc :: "store \<Rightarrow> pydict \<Rightarrow> nat \<times> store" where
  "store_alloc s d = (fresh s, s\<lparr>objs := (objs s)(fresh s := d), fresh := Suc (fresh s)\<rparr>)"

definition dict_copy :: "store \<Rightarrow> nat \<Rightarrow> nat \<times> store" where
  "dict_copy s a = store_alloc s (objs s a)"

definition dict_delitem :: "store \<Rightarrow> nat \<Rightarrow> string \<Rightarrow> exn + store" where
  "dict_delitem s a k =
     (if dict_contains (objs s a) k
      then Inr (s\<lparr>objs := (objs s)(a := AList.delete k (objs s a))\<rparr>)
      else Inl (KeyError k))"

text \<open>
  The JSON branch of \<open>run\<close>, for the record at address \<open>data\<close>: the printed text, the
  address of \<open>json_data\<close> and the store afterwards.
\<close>

definition json_branch :: "env \<Rightarrow> store \<Rightarrow> nat \<Rightarrow> exn + (string \<times> nat \<times> store)" where
  "json_branch E s data =
     (case dict_copy s data of (json_data, s1) \<Rightarrow>
        bind (dict_delitem s1 json_data ''timestamp'') (\<lambda>s2.
        Inr (json_dumps E (objs s2 json_data), json_data, s2)))"

text \<open>
  \<open>run\<close> after the parsing of the arguments and the \<open>--list-fields\<close> and \<open>--chart\<close>
  branches, which return earlier: fetch, then the JSON text or the presenter.
\<close>

record args =
  a_symbol :: string
  a_detailed :: bool
  a_json :: bool
  a_no_colors :: bool
  a_all :: bool
  a_fields :: "string list option"

datatype status = Returned | Exited nat | Raised exn

definition empty_store :: store where
  "empty_store = \<lparr>objs = (\<lambda>a. []), fresh = 0\<rparr>"

definition run_snapshot ::
  "env \<Rightarrow> provider \<Rightarrow> string \<Rightarrow> colors \<Rightarrow> args \<Rightarrow> string list \<times> string list \<times> status" where
  "run_snapshot E P now cs0 parsed_args =
     (let cs = (if a_no_colors parsed_args then no_colors cs0 else cs0) in
      case get_stock_data P now (a_symbol parsed_args) of (data, err) \<Rightarrow>
        (case data of
           None \<Rightarrow>
             ([''Could not fetch data for symbol: '' @ a_symbol parsed_args,
               ''Please check the symbol and try again.''], err, Exited 1)
         | Some d \<Rightarrow>
             if d = [] then
               ([''Could not fetch data for symbol: '' @ a_symbol parsed_args,
                 ''Please check the symbol and try again.''], err, Exited 1)
             else if a_json parsed_args then
               (case store_alloc empty_store d of (addr, s) \<Rightarrow>
                  (case json_branch E s addr of
                     Inl e \<Rightarrow> ([], err, Raised e)
                   | Inr (text, _, _) \<Rightarrow> ([text], err, Returned)))
             else
               (case display_stock_info E cs d (a_detailed parsed_args) (a_fields parsed_args)
                       (a_all parsed_args) of
                  (out, r) \<Rightarrow> (out, err, (case r of None \<Rightarrow> Returned | Some e \<Rightarrow> Raised e)))))"

section \<open>Auxiliary definitions for the statements\<close>

text \<open>
  The text \<open>format_field_value\<close> returns; it never raises (\<open>format_field_value_total\<close>).
\<close>

definition formatted_text :: "env \<Rightarrow> string \<Rightarrow> pyval \<Rightarrow> string" where
  "formatted_text E field_key value =
     (case format_field_value E field_key value of Inr s \<Rightarrow> s | Inl e \<Rightarrow> [])"

text \<open>
  An environment for concrete evaluations: the C locale, where \<open>locale.currency\<close> raises.
  Its float and JSON texts are placeholders; no evaluation below reaches them.
\<close>

definition c_locale_env :: env where
  "c_locale_env =
     \<lparr>locale_currency = (\<lambda>q. None), float_repr = (\<lambda>q. []),
      float_repr_grouped = (\<lambda>q. []), json_dumps = (\<lambda>d. [])\<rparr>"

text \<open>
  The line \<open>_display_specific_fields\<close> prints for one requested key.
\<close>

definition specific_field_line :: "env \<Rightarrow> pydict \<Rightarrow> string \<Rightarrow> string" where
  "specific_field_line E data field =
     (case map_of all_fields field of
        Some display_name \<Rightarrow>
          ''  '' @ display_name @ '': '' @ formatted_text E field (dict_get data field)
      | None \<Rightarrow> ''  '' @ field @ '': Field not available'')"

text \<open>
  A field counts for \<open>--all\<close> when the record has it with a value other than \<open>None\<close>.
  The block of a category is its header and one line per such field, or nothing when
  there is no such field.
\<close>

definition has_value :: "pydict \<Rightarrow> string \<Rightarrow> bool" where
  "has_value data k = (case map_of data k of None \<Rightarrow> False | Some v \<Rightarrow> v \<noteq> PNone)"

definition category_lines :: "env \<Rightarrow> pydict \<Rightarrow> (string \<times> string) list \<Rightarrow> string list" where
  "category_lines E data flds =
     map (\<lambda>f. ''  '' @ snd f @ '': '' @ formatted_text E (fst f) (dict_get data (fst f)))
         (filter (\<lambda>f. has_value data (fst f)) flds)"

definition category_block ::
  "env \<Rightarrow> colors \<Rightarrow> pydict \<Rightarrow> string \<times> (string \<times> string) list \<Rightarrow> string list" where
  "category_block E cs data c =
     (if category_lines E data (snd c) = [] then []
      else (NL @ colorize cs (fst c @ '':'') ''bold'') # category_lines E data (snd c))"

text \<open>A fetched record, for concrete evaluations.\<close>

definition sample_record :: pydict where
  "sample_record =
     [(''symbol'', PStr ''ACME''), (''name'', PStr ''Acme Corp''),
      (''current_price'', PFloat 150), (''previous_close'', PFloat 148),
      (''change'', PFloat 2), (''change_percent'', PFloat (200 / 148)),
      (''volume'', PInt 1234567), (''high'', PFloat 151), (''low'', PFloat 147),
      (''timestamp'', PStr ''2024-01-02 03:04:05''),
      (''marketCap'', PFloat 2500000000000)]"


text \<open>Frames and a provider that answers with them, for concrete evaluations.\<close>

definition empty_frame :: frame where
  "empty_frame = \<lparr>frame_index = [], frame_columns = []\<rparr>"

definition one_row_frame :: frame where
  "one_row_frame = \<lparr>frame_index = [Date 2024 1 2], frame_columns = [(''Close'', [10])]\<rparr>"

definition two_row_frame :: frame where
  "two_row_frame =
     \<lparr>frame_index = [Date 2024 1 2, Date 2024 1 3],
      frame_columns = [(''Close'', [10, 11]), (''Volume'', [100, 200])]\<rparr>"

definition no_close_frame :: frame where
  "no_close_frame = \<lparr>frame_index = [Date 2024 1 2], frame_columns = [(''Open'', [1])]\<rparr>"

definition frame_provider :: "pydict \<Rightarrow> frame \<Rightarrow> provider" where
  "frame_provider info hist = \<lparr>ticker_info = (\<lambda>s. Inr info), ticker_history = (\<lambda>s p. Inr hist)\<rparr>"


text \<open>The column of a frame under a name, or the empty sequence when there is none.\<close>

definition series_of :: "frame \<Rightarrow> string \<Rightarrow> rat list" where
  "series_of hist name = (case map_of (frame_columns hist) name of Some c \<Rightarrow> c | None \<Rightarrow> [])"

section \<open>Evaluation of decimal text\<close>

lemma floor_rat_divide_numeral [simp]:
  "\<lfloor>numeral a / numeral b :: rat\<rfloor> = numeral a div numeral b"
  by (metis floor_divide_of_int_eq of_int_numeral)

lemmas decimal_eval = fixed2_def grouped2_def signed2_def frac2_def hundredths_def
  round_half_even_def digit_chr_def str_nat.simps group3.simps Let_def

lemmas threshold_defs = TRILLION_def BILLION_def MILLION_def THOUSAND_def

section \<open>The formatter: thresholds, percentages, \<open>N/A\<close>\<close>



lemma py_times_100_number:
  "num_of v = Some q \<Longrightarrow> \<exists>p. py_times_100 v = Inr p \<and> num_of p = Some (q * 100)"
  by (cases v) auto

lemma py_format_fixed2_number:
  "num_of p = Some q \<Longrightarrow> py_format_fixed2 p = Inr (fixed2 q)"
  by (cases p) auto

lemma py_format_comma_number:
  "num_of v = Some q \<Longrightarrow> \<exists>s. py_format_comma E v = Inr s"
  by (cases v) auto

lemma format_large_number_number:
  "num_of v = Some q \<Longrightarrow> \<exists>s. format_large_number v = Inr s"
  by (simp add: format_large_number_def)

text \<open>Formatting a field never raises, whatever the key and the value.\<close>

lemma format_field_value_total: "\<exists>s. format_field_value E field_key value = Inr s"
proof (cases "num_of value")
  case None
  then show ?thesis by (simp add: format_field_value_def is_number_def)
next
  case (Some q)
  obtain p where p: "py_times_100 value = Inr p" "num_of p = Some (q * 100)"
    using py_times_100_number [OF Some] by blast
  show ?thesis
    using Some p py_format_fixed2_number [OF p(2)] py_format_fixed2_number [OF Some]
      py_format_comma_number [OF Some, of E] format_large_number_number [OF Some]
    by (auto simp add: format_field_value_def is_number_def bind_def)
qed

lemma format_field_value_text:
  "format_field_value E field_key value = Inr (formatted_text E field_key value)"
  using format_field_value_total [of E field_key "value"] by (auto simp add: formatted_text_def)




section \<open>The presenter's loops\<close>

lemma seq_emit [simp]: "seq (emit s) p = (s # fst p, snd p)"
  by (simp add: seq_def emit_def)

lemma seq_nothing [simp]: "seq nothing p = p"
  by (simp add: seq_def nothing_def)

lemma seq_ok [simp]: "seq (xs, None) p = (xs @ fst p, snd p)"
  by (simp add: seq_def)

lemma seq_raised [simp]: "seq (xs, Some e) p = (xs, Some e)"
  by (simp add: seq_def)

lemma bind_val_Inr [simp]: "bind_val (Inr v) f = f v"
  by (simp add: bind_val_def)

lemma bind_val_Inl [simp]: "bind_val (Inl e) f = ([], Some e)"
  by (simp add: bind_val_def)

lemma bind_Inr [simp]: "bind (Inr v) f = f v"
  by (simp add: bind_def)

lemma bind_Inl [simp]: "bind (Inl e) f = Inl e"
  by (simp add: bind_def)

lemma map_of_fold_update:
  "map_of (fold (\<lambda>(k, v) acc. AList.update k v acc) xs acc) = map_of (rev xs @ acc)"
proof (induction xs arbitrary: acc)
  case Nil
  then show ?case by simp
next
  case (Cons x xs)
  obtain k v where x: "x = (k, v)" by (cases x)
  show ?case
    by (simp add: x Cons.IH update_conv' map_add_upd_left fun_eq_iff map_add_def)
qed

lemma map_of_dict_update: "map_of (dict_update d other) = map_of (rev other @ d)"
  using map_of_fold_update [of other d]
  by (simp add: dict_update_def dict_setitem_def)

lemma map_of_fold_categories:
  "map_of (fold (\<lambda>(category, flds) acc. dict_update acc flds) cats acc) =
     map_of (rev (concat (map snd cats)) @ acc)"
proof (induction cats arbitrary: acc)
  case Nil
  then show ?case by simp
next
  case (Cons c cats)
  obtain name flds where c: "c = (name, flds)" by (cases c)
  show ?case
    by (simp add: c Cons.IH map_of_dict_update map_of_append)
qed

lemma map_of_all_fields: "map_of all_fields = map_of (rev (concat (map snd field_categories)))"
  using map_of_fold_categories [of field_categories "[]"] by (simp add: all_fields_def)

lemma specific_fields_loop_lines:
  "specific_fields_loop E data flds = (map (specific_field_line E data) flds, None)"
proof (induction flds)
  case Nil
  then show ?case by (simp add: nothing_def)
next
  case (Cons field flds)
  show ?case
    by (simp add: Cons.IH specific_field_line_def format_field_value_text split: option.split)
qed

lemma category_data_loop_filter:
  "category_data_loop E data flds acc =
     Inr (acc @ map (\<lambda>f. (snd f, formatted_text E (fst f) (dict_get data (fst f))))
                    (filter (\<lambda>f. has_value data (fst f)) flds))"
proof (induction flds arbitrary: acc)
  case Nil
  then show ?case by simp
next
  case (Cons f flds)
  obtain k label where f: "f = (k, label)" by (cases f)
  show ?case
    by (simp add: f Cons.IH has_value_def dict_get_def format_field_value_text split: option.split)
qed

lemma print_category_data_lines:
  "print_category_data pairs = (map (\<lambda>p. ''  '' @ fst p @ '': '' @ snd p) pairs, None)"
  by (induction pairs rule: print_category_data.induct) (simp_all add: nothing_def)

lemma all_fields_loop_blocks:
  "all_fields_loop E cs data cats = (concat (map (category_block E cs data) cats), None)"
proof (induction cats)
  case Nil
  then show ?case by (simp add: nothing_def)
next
  case (Cons c cats)
  obtain name flds where c: "c = (name, flds)" by (cases c)
  show ?case
    by (simp add: c Cons.IH category_data_loop_filter print_category_data_lines
        category_block_def category_lines_def nothing_def comp_def)
qed

lemmas catalog_eval = map_of_all_fields field_categories_def

lemmas field_class_defs = percent_fields_def large_number_fields_def ratio_fields_def
  count_fields_def

text \<open>
  C6. \<open>--fields\<close> prints, after its header, one line per requested key, in the order
  requested and without raising: for a key of the catalog its label and formatted value
  (with \<open>N/A\<close> when the record lacks the key), for any other key the key followed by
  \<open>Field not available\<close>.
\<close>

theorem display_specific_fields_lines:
  "display_specific_fields E cs data flds =
     ((NL @ colorize cs ''Requested Fields:'' ''bold'') # map (specific_field_line E data) flds, None) \<and>
   (map_of all_fields field = Some label \<and> map_of data field = None \<longrightarrow>
      specific_field_line E data field = ''  '' @ label @ '': N/A'') \<and>
   (map_of all_fields field = None \<longrightarrow>
      specific_field_line E data field = ''  '' @ field @ '': Field not available'')"
  by (simp add: display_specific_fields_def specific_fields_loop_lines specific_field_line_def
      formatted_text_def format_field_value_def dict_get_def)

theorem display_specific_fields_lines_witness:
  "map_of all_fields ''trailingPE'' = Some ''P/E Ratio (TTM)'' \<and>
   map_of sample_record ''trailingPE'' = None \<and>
   map_of all_fields ''bogusField'' = None \<and>
   display_specific_fields c_locale_env (no_colors init_colors) sample_record
       [''marketCap'', ''bogusField'', ''trailingPE''] =
     ([NL @ ''Requested Fields:'',
       ''  Market Cap: $2.50T'',
       ''  bogusField: Field not available'',
       ''  P/E Ratio (TTM): N/A''], None)"
proof -
  have "map_of (rev (concat (map snd field_categories))) ''trailingPE'' = Some ''P/E Ratio (TTM)''"
    by code_simp
  then have a: "map_of all_fields ''trailingPE'' = Some ''P/E Ratio (TTM)''"
    by (simp only: map_of_all_fields)
  have b: "map_of sample_record ''trailingPE'' = None"
    by (simp add: sample_record_def)
  have "map_of (rev (concat (map snd field_categories))) ''bogusField'' = None"
    by code_simp
  then have c: "map_of all_fields ''bogusField'' = None"
    by (simp only: map_of_all_fields)
  have "map_of (rev (concat (map snd field_categories))) ''marketCap'' = Some ''Market Cap''"
    by code_simp
  then have d: "map_of all_fields ''marketCap'' = Some ''Market Cap''"
    by (simp only: map_of_all_fields)
  have m: "specific_field_line c_locale_env sample_record ''marketCap'' = ''  Market Cap: $2.50T''"
    by (simp add: specific_field_line_def d formatted_text_def format_field_value_def
        field_class_defs is_number_def dict_get_def sample_record_def format_large_number_def
        threshold_defs decimal_eval)
  note t = display_specific_fields_lines
    [of c_locale_env "no_colors init_colors" sample_record _ "''trailingPE''" "''P/E Ratio (TTM)''"]
  note u = display_specific_fields_lines
    [of c_locale_env "no_colors init_colors" sample_record
        "[''marketCap'', ''bogusField'', ''trailingPE'']" "''bogusField''" "[]"]
  have "specific_field_line c_locale_env sample_record ''trailingPE'' = ''  P/E Ratio (TTM): N/A''"
    using t a b by simp
  moreover have "specific_field_line c_locale_env sample_record ''bogusField'' =
      ''  bogusField: Field not available''"
    using u c by simp
  ultimately show ?thesis
    using a b c m u by (simp add: colorize_def colors_lookup_def no_colors_def)
qed

text \<open>
  C7. \<open>--all\<close> prints the blocks of the categories in the catalog's order and never
  raises. The block of a category lists, in the catalog's order, exactly the fields the
  record has with a value other than \<open>None\<close>, under the category's header; when there
  is no such field the block is empty, header included.
\<close>

theorem display_all_fields_blocks:
  "display_all_fields E cs data = (concat (map (category_block E cs data) field_categories), None) \<and>
   (\<forall>c. category_block E cs data c =
      (if \<forall>f \<in> set (snd c). \<not> has_value data (fst f) then []
       else (NL @ colorize cs (fst c @ '':'') ''bold'') #
            map (\<lambda>f. ''  '' @ snd f @ '': '' @ formatted_text E (fst f) (dict_get data (fst f)))
                (filter (\<lambda>f. has_value data (fst f)) (snd c))))"
  by (auto simp add: display_all_fields_def all_fields_loop_blocks category_block_def
      category_lines_def filter_empty_conv)

theorem display_all_fields_blocks_witness:
  "\<not> has_value [(''marketCap'', PFloat 2500000000000), (''trailingPE'', PNone)] ''dividendRate'' \<and>
   \<not> has_value [(''marketCap'', PFloat 2500000000000), (''trailingPE'', PNone)] ''dividendYield'' \<and>
   category_block c_locale_env (no_colors init_colors)
      [(''marketCap'', PFloat 2500000000000), (''trailingPE'', PNone)]
      (''Dividend Info'', [(''dividendRate'', ''Dividend Rate''), (''dividendYield'', ''Dividend Yield'')]) = [] \<and>
   display_all_fields c_locale_env (no_colors init_colors)
      [(''marketCap'', PFloat 2500000000000), (''trailingPE'', PNone)] =
     ([NL @ ''Market Metrics:'', ''  Market Cap: $2.50T''], None)"
proof -
  let ?d = "[(''marketCap'', PFloat 2500000000000), (''trailingPE'', PNone)]"
  note t = display_all_fields_blocks [of c_locale_env "no_colors init_colors" ?d]
  have h: "\<forall>f \<in> set [(''dividendRate'', ''Dividend Rate''), (''dividendYield'', ''Dividend Yield'')].
      \<not> has_value ?d (fst f)"
    by (simp add: has_value_def)
  have m: "formatted_text c_locale_env ''marketCap'' (PFloat 2500000000000) = ''$2.50T''"
    by (simp add: formatted_text_def format_field_value_def field_class_defs is_number_def
        format_large_number_def threshold_defs decimal_eval)
  have "concat (map (category_block c_locale_env (no_colors init_colors) ?d) field_categories) =
      [NL @ ''Market Metrics:'', ''  Market Cap: $2.50T'']"
    by (simp add: field_categories_def category_block_def category_lines_def has_value_def
        dict_get_def m colorize_def colors_lookup_def no_colors_def)
  then show ?thesis
    using t h by (simp add: has_value_def)
qed

section \<open>Precedence of the display modes\<close>

lemma fst_emit [simp]: "fst (emit s) = [s]"
  by (simp add: emit_def)

lemma snd_emit [simp]: "snd (emit s) = None"
  by (simp add: emit_def)




lemma display_specific_fields_no_exception: "snd (display_specific_fields E cs data flds) = None"
  by (simp add: display_specific_fields_def specific_fields_loop_lines)












section \<open>The data fetcher: decomposition\<close>

lemma bind_InrE:
  assumes "bind r f = Inr y"
  obtains v where "r = Inr v" "f v = Inr y"
  using assms by (cases r) (simp_all add: bind_def)


lemma provider_call_Inr: "provider_call r = Inr v \<longleftrightarrow> r = Inr v"
  by (cases r) (simp_all add: provider_call_def)

lemma map_of_merge_info:
  "map_of (merge_info info keys data) k =
     (if k \<in> set keys \<and> has_value info k then map_of info k else map_of data k)"
proof (induction keys arbitrary: data)
  case Nil
  then show ?case by simp
next
  case (Cons field_key keys)
  show ?case
    by (cases "map_of info field_key")
       (auto simp add: Cons.IH has_value_def dict_setitem_def update_conv')
qed

lemma catalog_key_iff: "k \<in> set (map fst all_fields) \<longleftrightarrow> map_of all_fields k \<noteq> None"
  by (simp add: map_of_eq_None_iff)

lemma not_catalog_key:
  assumes "map_of (concat (map snd field_categories)) k = None"
  shows "k \<notin> set (map fst all_fields)"
proof -
  have "k \<notin> fst ` set (concat (map snd field_categories))"
    using assms map_of_eq_None_iff [of "concat (map snd field_categories)" k] by blast
  then have "k \<notin> fst ` set (rev (concat (map snd field_categories)))"
    by simp
  then have "map_of (rev (concat (map snd field_categories))) k = None"
    using map_of_eq_None_iff [of "rev (concat (map snd field_categories))" k] by blast
  then have "map_of all_fields k = None"
    by (simp only: map_of_all_fields)
  then show ?thesis
    using catalog_key_iff [of k] by blast
qed

lemma snapshot_values_success:
  assumes "snapshot_values hist = Inr sv"
  shows "(\<exists>close. frame_getitem hist ''Close'' = Inr close \<and>
            iloc close (- 1) = Inr (s_current_price sv) \<and>
            (if frame_len hist > 1 then iloc close (- 2) = Inr (s_previous_close sv)
             else s_previous_close sv = s_current_price sv)) \<and>
         s_change sv = s_current_price sv - s_previous_close sv \<and>
         s_change_percent sv =
           (if s_previous_close sv \<noteq> 0
            then PFloat (s_change sv / s_previous_close sv * 100) else PInt 0) \<and>
         (if frame_has hist ''Volume''
          then \<exists>c v. frame_getitem hist ''Volume'' = Inr c \<and> iloc c (- 1) = Inr v \<and>
                 s_volume sv = PFloat v
          else s_volume sv = PInt 0) \<and>
         (if frame_has hist ''High''
          then \<exists>c. frame_getitem hist ''High'' = Inr c \<and> iloc c (- 1) = Inr (s_high sv)
          else s_high sv = s_current_price sv) \<and>
         (if frame_has hist ''Low''
          then \<exists>c. frame_getitem hist ''Low'' = Inr c \<and> iloc c (- 1) = Inr (s_low sv)
          else s_low sv = s_current_price sv)"
  using assms unfolding snapshot_values_def Let_def
  by (elim bind_InrE) (auto elim!: bind_InrE simp add: py_div_def split: if_splits)





lemma get_stock_data_try_success:
  assumes "get_stock_data_try P now s = Inr (Some data)"
  obtains info hist sv where
    "ticker_info P s = Inr info"
    "ticker_history P s ''2d'' = Inr hist"
    "\<not> frame_empty hist"
    "snapshot_values hist = Inr sv"
    "data = merge_info info (map fst all_fields) (base_data s info sv now)"
  using assms unfolding get_stock_data_try_def
  by (elim bind_InrE) (auto elim!: bind_InrE simp add: provider_call_Inr split: if_splits)

section \<open>The data fetcher: claims\<close>

lemma merge_info_empty: "merge_info [] keys data = data"
  by (induction keys) simp_all

lemma iloc_last: "iloc c (- 1) = Inr v \<longleftrightarrow> c \<noteq> [] \<and> v = last c"
proof (cases c rule: rev_cases)
  case Nil
  then show ?thesis by (simp add: iloc_def)
next
  case (snoc xs x)
  then show ?thesis by (auto simp add: iloc_def Let_def nth_append)
qed

lemma symbol_X: "py_strip (py_upper '' x '') = ''X''"
  by (simp add: py_strip_def py_upper_def upper_chr_def is_space_def)

text \<open>
  C1, as stated, fails in its second half: on an empty window \<open>get_stock_data\<close> returns
  \<open>None\<close> and writes nothing to the error stream.
\<close>

theorem get_stock_data_empty_window_counterexample:
  "ticker_info (frame_provider [] empty_frame) ''X'' = Inr [] \<and>
   ticker_history (frame_provider [] empty_frame) ''X'' ''2d'' = Inr empty_frame \<and>
   frame_empty empty_frame \<and>
   get_stock_data (frame_provider [] empty_frame) ''2024-01-02 03:04:05'' ''X'' = (None, [])"
  by (simp add: get_stock_data_def get_stock_data_try_def frame_provider_def provider_call_def
      frame_empty_def empty_frame_def)

text \<open>
  C1, amended. When both provider calls succeed and the historical window is empty,
  \<open>get_stock_data\<close> returns \<open>None\<close> without raising and without a line on the error stream;
  the caller \<open>run\<close> then prints its two-line failure message on standard output and
  exits with status 1.
\<close>

theorem get_stock_data_empty_window:
  assumes "ticker_info P (py_strip (py_upper symbol)) = Inr info"
    and "ticker_history P (py_strip (py_upper symbol)) ''2d'' = Inr hist"
    and "frame_empty hist"
  shows "get_stock_data P now symbol = (None, []) \<and>
         (a_symbol parsed_args = symbol \<longrightarrow>
            run_snapshot E P now cs parsed_args =
              ([''Could not fetch data for symbol: '' @ symbol,
                ''Please check the symbol and try again.''], [], Exited 1))"
proof -
  have "get_stock_data P now symbol = (None, [])"
    using assms by (simp add: get_stock_data_def get_stock_data_try_def provider_call_def)
  then show ?thesis
    by (simp add: run_snapshot_def)
qed

theorem get_stock_data_empty_window_witness:
  "ticker_info (frame_provider [] empty_frame) (py_strip (py_upper '' x '')) = Inr [] \<and>
   ticker_history (frame_provider [] empty_frame) (py_strip (py_upper '' x '')) ''2d'' = Inr empty_frame \<and>
   frame_empty empty_frame \<and>
   get_stock_data (frame_provider [] empty_frame) ''2024-01-02 03:04:05'' '' x '' = (None, [])"
proof -
  have a: "ticker_info (frame_provider [] empty_frame) (py_strip (py_upper '' x '')) = Inr []"
    by (simp add: frame_provider_def)
  have b: "ticker_history (frame_provider [] empty_frame) (py_strip (py_upper '' x '')) ''2d'' =
      Inr empty_frame"
    by (simp add: frame_provider_def)
  have c: "frame_empty empty_frame"
    by (simp add: frame_empty_def empty_frame_def)
  show ?thesis
    using get_stock_data_empty_window [OF a b c] a b c by simp
qed

lemma record_keys_not_in_catalog:
  shows "''current_price'' \<notin> set (map fst all_fields)"
    and "''previous_close'' \<notin> set (map fst all_fields)"
    and "''change'' \<notin> set (map fst all_fields)"
    and "''change_percent'' \<notin> set (map fst all_fields)"
    and "''high'' \<notin> set (map fst all_fields)"
    and "''low'' \<notin> set (map fst all_fields)"
    and "''timestamp'' \<notin> set (map fst all_fields)"
  by (rule not_catalog_key, code_simp)+

lemma merge_info_other_key:
  "k \<notin> set keys \<Longrightarrow> map_of (merge_info info keys data) k = map_of data k"
  by (simp only: map_of_merge_info if_False simp_thms)

lemma get_stock_data_success:
  assumes "get_stock_data P now symbol = (Some data, err)"
  obtains info hist sv where
    "ticker_info P (py_strip (py_upper symbol)) = Inr info"
    "ticker_history P (py_strip (py_upper symbol)) ''2d'' = Inr hist"
    "\<not> frame_empty hist"
    "snapshot_values hist = Inr sv"
    "data = merge_info info (map fst all_fields) (base_data (py_strip (py_upper symbol)) info sv now)"
    "err = []"
proof -
  have t: "get_stock_data_try P now (py_strip (py_upper symbol)) = Inr (Some data)" and e: "err = []"
    using assms by (auto simp add: get_stock_data_def Let_def split: sum.splits)
  show ?thesis
    using get_stock_data_try_success [OF t] e that by blast
qed

lemma record_price_fields:
  assumes "data = merge_info info (map fst all_fields) (base_data s info sv now)"
  shows "map_of data ''current_price'' = Some (PFloat (s_current_price sv))"
    and "map_of data ''previous_close'' = Some (PFloat (s_previous_close sv))"
    and "map_of data ''change'' = Some (PFloat (s_change sv))"
    and "map_of data ''change_percent'' = Some (s_change_percent sv)"
    and "map_of data ''high'' = Some (PFloat (s_high sv))"
    and "map_of data ''low'' = Some (PFloat (s_low sv))"
    and "map_of data ''timestamp'' = Some (PStr now)"
  unfolding assms
  by (simp_all only: merge_info_other_key [OF record_keys_not_in_catalog(1)]
      merge_info_other_key [OF record_keys_not_in_catalog(2)]
      merge_info_other_key [OF record_keys_not_in_catalog(3)]
      merge_info_other_key [OF record_keys_not_in_catalog(4)]
      merge_info_other_key [OF record_keys_not_in_catalog(5)]
      merge_info_other_key [OF record_keys_not_in_catalog(6)]
      merge_info_other_key [OF record_keys_not_in_catalog(7)])
     (simp_all add: base_data_def)






text \<open>Concrete fetches: one row; two rows with a previous close of 0; two rows with volumes.\<close>

lemmas fetch_eval = get_stock_data_def get_stock_data_try_def frame_provider_def provider_call_def
  frame_empty_def snapshot_values_def frame_getitem_def iloc_def frame_len_def frame_has_def
  dict_contains_def py_div_def Let_def

lemma one_row_fetch:
  "get_stock_data (frame_provider info one_row_frame) now '' x '' =
     (Some (merge_info info (map fst all_fields)
        (base_data ''X'' info
           \<lparr>s_current_price = 10, s_previous_close = 10, s_change = 0,
            s_change_percent = PFloat 0, s_volume = PInt 0, s_high = 10, s_low = 10\<rparr> now)), [])"
  by (simp add: fetch_eval symbol_X one_row_frame_def)


lemma two_row_fetch:
  "get_stock_data (frame_provider [] two_row_frame) now '' x '' =
     (Some (base_data ''X'' []
           \<lparr>s_current_price = 11, s_previous_close = 10, s_change = 1,
            s_change_percent = PFloat 10, s_volume = PFloat 200, s_high = 11, s_low = 11\<rparr> now), [])"
  by (simp add: fetch_eval symbol_X two_row_frame_def merge_info_empty)


lemma volume_in_catalog: "''volume'' \<in> set (map fst all_fields)"
proof -
  have "map_of (rev (concat (map snd field_categories))) ''volume'' = Some ''Volume''"
    by code_simp
  then have "map_of all_fields ''volume'' \<noteq> None"
    by (simp only: map_of_all_fields) simp
  then show ?thesis
    using catalog_key_iff [of "''volume''"] by blast
qed

lemma record_volume_field:
  assumes "data = merge_info info (map fst all_fields) (base_data s info sv now)"
  shows "map_of data ''volume'' =
           (if has_value info ''volume'' then map_of info ''volume'' else Some (s_volume sv))"
proof -
  have "map_of data ''volume'' =
      (if has_value info ''volume'' then map_of info ''volume''
       else map_of (base_data s info sv now) ''volume'')"
    unfolding assms by (simp only: map_of_merge_info volume_in_catalog simp_thms)
  then show ?thesis
    by (simp add: base_data_def)
qed

lemma frame_getitem_Inr:
  "frame_getitem hist name = Inr c \<longleftrightarrow> map_of (frame_columns hist) name = Some c"
  by (simp add: frame_getitem_def split: option.splits)

lemma snapshot_values_defaults:
  assumes "snapshot_values hist = Inr sv"
  shows "if frame_has hist ''Volume''
         then \<exists>c. map_of (frame_columns hist) ''Volume'' = Some c \<and> c \<noteq> [] \<and>
                s_volume sv = PFloat (last c)
         else s_volume sv = PInt 0"
    and "if frame_has hist ''High''
         then \<exists>c. map_of (frame_columns hist) ''High'' = Some c \<and> c \<noteq> [] \<and> s_high sv = last c
         else s_high sv = s_current_price sv"
    and "if frame_has hist ''Low''
         then \<exists>c. map_of (frame_columns hist) ''Low'' = Some c \<and> c \<noteq> [] \<and> s_low sv = last c
         else s_low sv = s_current_price sv"
proof -
  note v = snapshot_values_success [OF assms]
  show "if frame_has hist ''Volume''
         then \<exists>c. map_of (frame_columns hist) ''Volume'' = Some c \<and> c \<noteq> [] \<and>
                s_volume sv = PFloat (last c)
         else s_volume sv = PInt 0"
    using v [THEN conjunct2, THEN conjunct2, THEN conjunct2, THEN conjunct1]
    by (auto simp add: frame_getitem_Inr iloc_last)
  show "if frame_has hist ''High''
         then \<exists>c. map_of (frame_columns hist) ''High'' = Some c \<and> c \<noteq> [] \<and> s_high sv = last c
         else s_high sv = s_current_price sv"
    using v [THEN conjunct2, THEN conjunct2, THEN conjunct2, THEN conjunct2, THEN conjunct1]
    by (auto simp add: frame_getitem_Inr iloc_last)
  show "if frame_has hist ''Low''
         then \<exists>c. map_of (frame_columns hist) ''Low'' = Some c \<and> c \<noteq> [] \<and> s_low sv = last c
         else s_low sv = s_current_price sv"
    using v [THEN conjunct2, THEN conjunct2, THEN conjunct2, THEN conjunct2, THEN conjunct2]
    by (auto simp add: frame_getitem_Inr iloc_last)
qed

text \<open>
  C9, as stated, fails for \<open>volume\<close>: the key \<open>volume\<close> is also a key of the catalog, so
  the loop that adds the catalog's fields stores the metadata's \<open>volume\<close> over the value
  computed from the frame. A frame without a Volume column and metadata with
  \<open>volume = 123\<close> give a record whose \<open>volume\<close> is 123, not 0.
\<close>

theorem get_stock_data_volume_counterexample:
  "\<not> frame_empty one_row_frame \<and> \<not> frame_has one_row_frame ''Volume'' \<and>
   map_option (\<lambda>d. map_of d ''volume'')
     (fst (get_stock_data (frame_provider [(''volume'', PInt 123)] one_row_frame)
             ''2024-01-02 03:04:05'' '' x '')) = Some (Some (PInt 123))"
proof -
  have f: "\<not> frame_empty one_row_frame" "\<not> frame_has one_row_frame ''Volume''"
    by (simp_all add: frame_empty_def frame_has_def dict_contains_def one_row_frame_def)
  have "map_option (\<lambda>d. map_of d ''volume'')
     (fst (get_stock_data (frame_provider [(''volume'', PInt 123)] one_row_frame)
             ''2024-01-02 03:04:05'' '' x '')) = Some (Some (PInt 123))"
    unfolding one_row_fetch
    by (simp add: record_volume_field [OF refl] has_value_def)
  then show ?thesis
    using f by simp
qed

text \<open>
  C9, amended. In every record \<open>get_stock_data\<close> returns, \<open>high\<close> (\<open>low\<close>) is the last cell
  of the High (Low) column, or the current price when the frame lacks the column. The
  \<open>volume\<close> field is the metadata's \<open>volume\<close> when the metadata has one other than \<open>None\<close>;
  otherwise it is the last cell of the Volume column, or 0 when the frame lacks the
  column.
\<close>

theorem get_stock_data_volume_high_low:
  assumes "ticker_info P (py_strip (py_upper symbol)) = Inr info"
    and "ticker_history P (py_strip (py_upper symbol)) ''2d'' = Inr hist"
    and "get_stock_data P now symbol = (Some data, err)"
  shows "(if frame_has hist ''High''
          then \<exists>c. map_of (frame_columns hist) ''High'' = Some c \<and> c \<noteq> [] \<and>
                 map_of data ''high'' = Some (PFloat (last c))
          else map_of data ''high'' = map_of data ''current_price'') \<and>
         (if frame_has hist ''Low''
          then \<exists>c. map_of (frame_columns hist) ''Low'' = Some c \<and> c \<noteq> [] \<and>
                 map_of data ''low'' = Some (PFloat (last c))
          else map_of data ''low'' = map_of data ''current_price'') \<and>
         (if has_value info ''volume'' then map_of data ''volume'' = map_of info ''volume''
          else if frame_has hist ''Volume''
          then \<exists>c. map_of (frame_columns hist) ''Volume'' = Some c \<and> c \<noteq> [] \<and>
                 map_of data ''volume'' = Some (PFloat (last c))
          else map_of data ''volume'' = Some (PInt 0))"
proof (rule get_stock_data_success [OF assms(3)])
  fix info' hist' sv
  assume i: "ticker_info P (py_strip (py_upper symbol)) = Inr info'"
    and h: "ticker_history P (py_strip (py_upper symbol)) ''2d'' = Inr hist'"
    and ne: "\<not> frame_empty hist'"
    and sv: "snapshot_values hist' = Inr sv"
    and d: "data = merge_info info' (map fst all_fields)
                     (base_data (py_strip (py_upper symbol)) info' sv now)"
    and e: "err = []"
  have eq: "hist' = hist" "info' = info"
    using i h assms(1) assms(2) by simp_all
  note f = record_price_fields [OF d]
  note vol = record_volume_field [OF d, unfolded eq]
  note df = snapshot_values_defaults [OF sv, unfolded eq]
  have hi: "if frame_has hist ''High''
          then \<exists>c. map_of (frame_columns hist) ''High'' = Some c \<and> c \<noteq> [] \<and>
                 map_of data ''high'' = Some (PFloat (last c))
          else map_of data ''high'' = map_of data ''current_price''"
    using df(2) by (auto simp add: f(1) f(5))
  have lo: "if frame_has hist ''Low''
          then \<exists>c. map_of (frame_columns hist) ''Low'' = Some c \<and> c \<noteq> [] \<and>
                 map_of data ''low'' = Some (PFloat (last c))
          else map_of data ''low'' = map_of data ''current_price''"
    using df(3) by (auto simp add: f(1) f(6))
  have vo: "if has_value info ''volume'' then map_of data ''volume'' = map_of info ''volume''
          else if frame_has hist ''Volume''
          then \<exists>c. map_of (frame_columns hist) ''Volume'' = Some c \<and> c \<noteq> [] \<and>
                 map_of data ''volume'' = Some (PFloat (last c))
          else map_of data ''volume'' = Some (PInt 0)"
    using df(1) by (auto simp add: vol)
  show ?thesis
    using hi lo vo by (intro conjI) assumption+
qed

theorem get_stock_data_volume_high_low_witness:
  "ticker_info (frame_provider [] two_row_frame) (py_strip (py_upper '' x '')) = Inr [] \<and>
   ticker_history (frame_provider [] two_row_frame) (py_strip (py_upper '' x '')) ''2d'' =
     Inr two_row_frame \<and>
   fst (get_stock_data (frame_provider [] two_row_frame) ''2024-01-02 03:04:05'' '' x '') \<noteq> None \<and>
   map_option (\<lambda>d. (map_of d ''volume'', map_of d ''high'', map_of d ''low''))
     (fst (get_stock_data (frame_provider [] two_row_frame) ''2024-01-02 03:04:05'' '' x '')) =
     Some (Some (PFloat 200), Some (PFloat 11), Some (PFloat 11))"
proof -
  let ?now = "''2024-01-02 03:04:05''"
  let ?d = "the (fst (get_stock_data (frame_provider [] two_row_frame) ?now '' x ''))"
  have a: "ticker_info (frame_provider [] two_row_frame) (py_strip (py_upper '' x '')) = Inr []"
    by (simp add: frame_provider_def)
  have b: "ticker_history (frame_provider [] two_row_frame) (py_strip (py_upper '' x '')) ''2d'' =
      Inr two_row_frame"
    by (simp add: frame_provider_def)
  note t = get_stock_data_volume_high_low [OF a b two_row_fetch [of ?now]]
  have c: "\<not> frame_has two_row_frame ''High''" "\<not> frame_has two_row_frame ''Low''"
    "frame_has two_row_frame ''Volume''" "\<not> has_value [] ''volume''"
    "map_of (frame_columns two_row_frame) ''Volume'' = Some [100, 200]"
    by (simp_all add: frame_has_def dict_contains_def two_row_frame_def has_value_def)
  have cp: "map_of (base_data ''X'' []
           \<lparr>s_current_price = 11, s_previous_close = 10, s_change = 1,
            s_change_percent = PFloat 10, s_volume = PFloat 200, s_high = 11, s_low = 11\<rparr> ?now)
           ''current_price'' = Some (PFloat 11)"
    by (simp add: base_data_def)
  show ?thesis
    using t a b by (simp add: c cp two_row_fetch)
qed

lemma optional_column:
  "(if frame_has hist name then frame_getitem hist name else Inr []) = Inr (series_of hist name)"
  by (simp add: frame_has_def dict_contains_def frame_getitem_def series_of_def split: option.splits)

lemma series_of_length:
  assumes "wf_frame hist"
  shows "if frame_has hist name
         then map_of (frame_columns hist) name = Some (series_of hist name) \<and>
              length (series_of hist name) = length (frame_index hist)
         else series_of hist name = []"
proof (cases "map_of (frame_columns hist) name")
  case None
  then show ?thesis
    by (simp add: frame_has_def dict_contains_def series_of_def)
next
  case (Some c)
  then have "(name, c) \<in> set (frame_columns hist)"
    by (rule map_of_SomeD)
  then have "length c = length (frame_index hist)"
    using assms by (auto simp add: wf_frame_def list_all_iff)
  then show ?thesis
    using Some by (simp add: frame_has_def dict_contains_def series_of_def)
qed

text \<open>
  C2, as stated, fails for the close series: \<open>hist['Close']\<close> is read without a test, so
  on a non-empty frame without a Close column the \<open>KeyError\<close> is caught and
  \<open>get_historical_data\<close> returns \<open>None\<close> with a line on the error stream.
\<close>

theorem get_historical_data_no_close_counterexample:
  "\<not> frame_empty no_close_frame \<and>
   get_historical_data (frame_provider [] no_close_frame) '' x '' ''1mo'' =
     (None, [''Error fetching historical data for X: '' @ [CHR 0x27] @ ''Close'' @ [CHR 0x27]])"
  by (simp add: get_historical_data_def get_historical_data_try_def symbol_X frame_provider_def
      provider_call_def frame_empty_def no_close_frame_def frame_getitem_def)

text \<open>
  C2, amended. On a non-empty, well-formed frame with a Close column,
  \<open>get_historical_data\<close> returns the dates, the Close column as prices, and for each of
  Volume, High, Low and Open the column, or the empty sequence when the frame lacks it;
  every series that is not empty by default has the length of the dates. Without a
  Close column the result is \<open>None\<close> and one diagnostic line.
\<close>

theorem get_historical_data_series:
  assumes "ticker_history P (py_strip (py_upper symbol)) period = Inr hist"
    and "\<not> frame_empty hist"
    and "wf_frame hist"
  shows "(frame_has hist ''Close'' \<longrightarrow>
            get_historical_data P symbol period =
              (Some \<lparr>h_symbol = py_strip (py_upper symbol),
                     h_dates = map strftime_dmy (frame_index hist),
                     h_prices = series_of hist ''Close'',
                     h_volumes = series_of hist ''Volume'',
                     h_highs = series_of hist ''High'',
                     h_lows = series_of hist ''Low'',
                     h_opens = series_of hist ''Open''\<rparr>, [])) \<and>
         (\<not> frame_has hist ''Close'' \<longrightarrow>
            get_historical_data P symbol period =
              (None, [''Error fetching historical data for '' @ py_strip (py_upper symbol) @ '': ''
                       @ [CHR 0x27] @ ''Close'' @ [CHR 0x27]])) \<and>
         (\<forall>name. if frame_has hist name
                  then map_of (frame_columns hist) name = Some (series_of hist name) \<and>
                       length (series_of hist name) = length (map strftime_dmy (frame_index hist))
                  else series_of hist name = [])"
proof -
  have c: "frame_getitem hist ''Close'' = Inr (series_of hist ''Close'')" if "frame_has hist ''Close''"
    using that optional_column [of hist "''Close''"] by simp
  have a: "get_historical_data P symbol period =
              (Some \<lparr>h_symbol = py_strip (py_upper symbol),
                     h_dates = map strftime_dmy (frame_index hist),
                     h_prices = series_of hist ''Close'',
                     h_volumes = series_of hist ''Volume'',
                     h_highs = series_of hist ''High'',
                     h_lows = series_of hist ''Low'',
                     h_opens = series_of hist ''Open''\<rparr>, [])" if "frame_has hist ''Close''"
    using assms(1) assms(2) c [OF that]
    by (simp add: get_historical_data_def get_historical_data_try_def provider_call_def
        optional_column Let_def)
  have n: "frame_getitem hist ''Close'' = Inl (KeyError ''Close'')" if "\<not> frame_has hist ''Close''"
    using that by (simp add: frame_has_def dict_contains_def frame_getitem_def)
  have b: "get_historical_data P symbol period =
              (None, [''Error fetching historical data for '' @ py_strip (py_upper symbol) @ '': ''
                       @ [CHR 0x27] @ ''Close'' @ [CHR 0x27]])" if "\<not> frame_has hist ''Close''"
    using assms(1) assms(2) n [OF that]
    by (simp add: get_historical_data_def get_historical_data_try_def provider_call_def Let_def)
  show ?thesis
    using a b series_of_length [OF assms(3)] by simp
qed

theorem get_historical_data_series_witness:
  "ticker_history (frame_provider [] two_row_frame) (py_strip (py_upper '' x '')) ''1mo'' =
     Inr two_row_frame \<and>
   \<not> frame_empty two_row_frame \<and> wf_frame two_row_frame \<and>
   get_historical_data (frame_provider [] two_row_frame) '' x '' ''1mo'' =
     (Some \<lparr>h_symbol = ''X'', h_dates = [''02/01/2024'', ''03/01/2024''],
            h_prices = [10, 11], h_volumes = [100, 200],
            h_highs = [], h_lows = [], h_opens = []\<rparr>, [])"
proof -
  have a: "ticker_history (frame_provider [] two_row_frame) (py_strip (py_upper '' x '')) ''1mo'' =
      Inr two_row_frame"
    by (simp add: frame_provider_def)
  have b: "\<not> frame_empty two_row_frame"
    by (simp add: frame_empty_def two_row_frame_def)
  have c: "wf_frame two_row_frame"
    by (simp add: wf_frame_def two_row_frame_def)
  have d: "frame_has two_row_frame ''Close''"
    by (simp add: frame_has_def dict_contains_def two_row_frame_def)
  have s: "series_of two_row_frame ''Close'' = [10, 11]" "series_of two_row_frame ''Volume'' = [100, 200]"
    "series_of two_row_frame ''High'' = []" "series_of two_row_frame ''Low'' = []"
    "series_of two_row_frame ''Open'' = []"
    by (simp_all add: series_of_def two_row_frame_def)
  have t: "map strftime_dmy (frame_index two_row_frame) = [''02/01/2024'', ''03/01/2024'']"
    by (simp add: two_row_frame_def pad_zero_def str_nat.simps digit_chr_def)
  show ?thesis
    using get_historical_data_series [OF a b c] a b c d by (simp add: s t symbol_X)
qed

section \<open>The JSON output\<close>






end
